theory Spec2Isabelle
  imports Complex_Main
begin

section \<open>Closed-loop depth control of an underwater vehicle\<close>

text \<open>
  A shallow embedding of \<^verbatim>\<open>uuv_mission/controll.py\<close> and
  \<^verbatim>\<open>uuv_mission/dynamic.py\<close>. Objects are records, mutation is explicit
  state passing, exceptions are values of \<open>error\<close>, and the \<^verbatim>\<open>for\<close> loop of
  \<^verbatim>\<open>simulate\<close> is a recursion over the list of its indices.

  Numbers: Python and numpy floats are modelled as exact reals (\<open>real\<close>), so rounding,
  overflow to infinity and NaN propagation are outside the model. The one place where
  the source itself produces a non-finite value from finite inputs in exact arithmetic,
  the division by a zero peak reference in the overshoot, is made explicit.
\<close>

subsection \<open>Errors\<close>

datatype error = ValueError | IndexError

subsection \<open>The PD controller (controll.py)\<close>

record PDController =
  kp :: real
  kd :: real
  previous_error :: real

text \<open>\<^verbatim>\<open>PDController.__init__(self, kp=0.15, kd=0.6)\<close>\<close>

definition PDController_init :: "real \<Rightarrow> real \<Rightarrow> PDController" where
  "PDController_init p d = \<lparr>kp = p, kd = d, previous_error = 0\<rparr>"

definition PDController_default :: PDController where
  "PDController_default = PDController_init (15 / 100) (6 / 10)"

text \<open>
  \<^verbatim>\<open>compute_control_action(self, reference, current_depth)\<close>: the returned action and
  the controller after the call.
\<close>

definition compute_control_action :: "PDController \<Rightarrow> real \<Rightarrow> real \<Rightarrow> real \<times> PDController" where
  "compute_control_action c reference current_depth =
     (let err = reference - current_depth;
          control_action = kp c * err + kd c * (err - previous_error c);
          c' = c\<lparr>previous_error := err\<rparr>
      in (control_action, c'))"

subsection \<open>The vehicle (dynamic.py, class Submarine)\<close>

record Submarine =
  mass :: real
  drag :: real
  actuator_gain :: real
  dt :: real
  pos_x :: real
  pos_y :: real
  vel_x :: real
  vel_y :: real

text \<open>\<^verbatim>\<open>Submarine.__init__(self)\<close>\<close>

definition Submarine_init :: Submarine where
  "Submarine_init =
     \<lparr>mass = 1, drag = 1 / 10, actuator_gain = 1, dt = 1,
      pos_x = 0, pos_y = 0, vel_x = 1, vel_y = 0\<rparr>"

text \<open>
  \<^verbatim>\<open>transition(self, action, disturbance)\<close>. The statements run in the source's order:
  both positions are advanced first, then the force is computed from the velocity that
  is still the old one, then the velocity is advanced. The constructor sets
  \<^verbatim>\<open>mass = 1\<close> and nothing in the repository writes it; a zero mass (a Python
  \<^verbatim>\<open>ZeroDivisionError\<close> or a numpy infinity, depending on the operand types) is outside
  the model, and every statement about the value of \<open>vel_y\<close> assumes \<open>mass \<noteq> 0\<close>.
\<close>

definition transition :: "Submarine \<Rightarrow> real \<Rightarrow> real \<Rightarrow> Submarine" where
  "transition s action disturbance =
     (let s1 = s\<lparr>pos_x := pos_x s + vel_x s * dt s\<rparr>;
          s2 = s1\<lparr>pos_y := pos_y s1 + vel_y s1 * dt s1\<rparr>;
          force_y = - drag s2 * vel_y s2 + actuator_gain s2 * (action + disturbance);
          acc_y = force_y / mass s2
      in s2\<lparr>vel_y := vel_y s2 + acc_y * dt s2\<rparr>)"

definition get_depth :: "Submarine \<Rightarrow> real" where
  "get_depth s = pos_y s"

definition get_position :: "Submarine \<Rightarrow> real \<times> real" where
  "get_position s = (pos_x s, pos_y s)"

definition reset_state :: "Submarine \<Rightarrow> Submarine" where
  "reset_state s = s\<lparr>pos_x := 0, pos_y := 0, vel_x := 1, vel_y := 0\<rparr>"

subsection \<open>Trajectory and mission\<close>

text \<open>
  \<^verbatim>\<open>Trajectory.position\<close> is a numpy array of shape \<open>(T, 2)\<close>: a list of rows
  \<open>(x, y)\<close>.
\<close>

record Trajectory =
  position :: "(real \<times> real) list"

record Mission =
  reference :: "real list"
  cave_height :: "real list"
  cave_depth :: "real list"

subsection \<open>The closed loop (dynamic.py, class ClosedLoop)\<close>

record ClosedLoop =
  plant :: Submarine
  controller :: PDController

text \<open>
  The variables the loop of \<^verbatim>\<open>simulate\<close> reads and writes: the two objects behind
  \<^verbatim>\<open>self\<close> and the local arrays \<^verbatim>\<open>positions\<close> and \<^verbatim>\<open>actions\<close>.
\<close>

record sim_state =
  loop :: ClosedLoop
  positions :: "(real \<times> real) list"
  actions :: "real list"

text \<open>The body of \<^verbatim>\<open>for t in range(T)\<close>, lines 105 to 109.\<close>

definition simulate_body :: "Mission \<Rightarrow> real list \<Rightarrow> nat \<Rightarrow> sim_state \<Rightarrow> sim_state" where
  "simulate_body mission disturbances t st =
     (let positions' = (positions st)[t := get_position (plant (loop st))];
          observation_t = get_depth (plant (loop st));
          (a, c') = compute_control_action (controller (loop st)) (reference mission ! t) observation_t;
          actions' = (actions st)[t := a];
          plant' = transition (plant (loop st)) (actions' ! t) (disturbances ! t)
      in \<lparr>loop = \<lparr>plant = plant', controller = c'\<rparr>, positions = positions', actions = actions'\<rparr>)"

fun simulate_loop :: "Mission \<Rightarrow> real list \<Rightarrow> nat list \<Rightarrow> sim_state \<Rightarrow> sim_state" where
  "simulate_loop mission disturbances [] st = st"
| "simulate_loop mission disturbances (t # ts) st =
     simulate_loop mission disturbances ts (simulate_body mission disturbances t st)"

text \<open>
  \<^verbatim>\<open>simulate(self, mission, disturbances)\<close>. The result is the returned trajectory or
  the raised exception, paired with the closed loop as the call leaves it, so that what
  an error path has mutated is part of the result.
\<close>

definition simulate :: "ClosedLoop \<Rightarrow> Mission \<Rightarrow> real list \<Rightarrow> (error + Trajectory) \<times> ClosedLoop" where
  "simulate self mission disturbances =
     (let T = length (reference mission) in
      if length disturbances < T then (Inl ValueError, self)
      else
        let positions0 = replicate T (0, 0);
            actions0 = replicate T 0;
            self1 = self\<lparr>plant := reset_state (plant self)\<rparr>;
            st = simulate_loop mission disturbances [0..<T]
                   \<lparr>loop = self1, positions = positions0, actions = actions0\<rparr>
        in (Inr \<lparr>position = positions st\<rparr>, loop st))"

subsection \<open>Performance metrics (ClosedLoop.calculate_performance_metrics)\<close>

text \<open>
  Elementwise numpy operations on two one-dimensional arrays: equal lengths combine
  position by position, an array of length one is stretched to the other's length, and
  any other pair of lengths raises \<^verbatim>\<open>ValueError\<close> (shapes cannot be broadcast).
\<close>

definition np_broadcast :: "(real \<Rightarrow> real \<Rightarrow> 'a) \<Rightarrow> real list \<Rightarrow> real list \<Rightarrow> error + 'a list" where
  "np_broadcast f xs ys =
     (if length xs = length ys then Inr (map2 f xs ys)
      else if length xs = 1 then Inr (map (\<lambda>y. f (hd xs) y) ys)
      else if length ys = 1 then Inr (map (\<lambda>x. f x (hd ys)) xs)
      else Inl ValueError)"

text \<open>\<^verbatim>\<open>np.max\<close> raises \<^verbatim>\<open>ValueError\<close> on an empty array.\<close>

definition np_max :: "real list \<Rightarrow> error + real" where
  "np_max xs = (case xs of [] \<Rightarrow> Inl ValueError | x # xs' \<Rightarrow> Inr (fold max xs' x))"

text \<open>\<^verbatim>\<open>a[-1]\<close> raises \<^verbatim>\<open>IndexError\<close> on an empty array.\<close>

definition np_last :: "real list \<Rightarrow> error + real" where
  "np_last xs = (if xs = [] then Inl IndexError else Inr (last xs))"

text \<open>
  numpy's float division does not raise on a zero divisor: it warns and returns
  \<^verbatim>\<open>inf\<close> or \<^verbatim>\<open>nan\<close>. \<open>None\<close> stands for that non-finite result, which the following
  multiplication by 100 keeps.
\<close>

definition np_divide :: "real \<Rightarrow> real \<Rightarrow> real option" where
  "np_divide a b = (if b = 0 then None else Some (a / b))"

text \<open>
  The values the function prints, before their formatting to two decimals:
  \<open>settling_time\<close> is the local variable of that name (a number of steps) and
  \<open>settling_time_seconds\<close> the printed product \<^verbatim>\<open>settling_time * self.plant.dt\<close>.
\<close>

record Metrics =
  overshoot :: "real option"
  steady_state_error :: real
  settling_time :: nat
  settling_time_seconds :: real

text \<open>
  \<^verbatim>\<open>next((i for i in range(T - 1, 0, -1) if not within_tolerance[i]), T - 1) + 1\<close>:
  \<open>rev [1..<T]\<close> is \<^verbatim>\<open>range(T - 1, 0, -1)\<close>, the indices \<open>T - 1\<close> down to \<open>1\<close>.
\<close>

definition settling_scan :: "bool list \<Rightarrow> nat \<Rightarrow> nat" where
  "settling_scan within_tolerance T =
     (case find (\<lambda>i. \<not> within_tolerance ! i) (rev [1..<T]) of
        Some i \<Rightarrow> i
      | None \<Rightarrow> T - 1) + 1"

definition calculate_performance_metrics :: "ClosedLoop \<Rightarrow> Trajectory \<Rightarrow> Mission \<Rightarrow> error + Metrics" where
  "calculate_performance_metrics self trajectory mission =
     (let position_y = map snd (position trajectory);
          reference_y = reference mission;
          T = length reference_y
      in case np_broadcast (\<lambda>p r. p - r) position_y reference_y of
           Inl e \<Rightarrow> Inl e
         | Inr diff \<Rightarrow>
      (case np_max (map abs diff) of
           Inl e \<Rightarrow> Inl e
         | Inr max_deviation \<Rightarrow>
      (case np_max (map abs reference_y) of
           Inl e \<Rightarrow> Inl e
         | Inr max_reference \<Rightarrow>
      (let overshoot' = map_option (\<lambda>q. q * 100) (np_divide max_deviation max_reference)
       in case np_last position_y of
           Inl e \<Rightarrow> Inl e
         | Inr p_last \<Rightarrow>
      (case np_last reference_y of
           Inl e \<Rightarrow> Inl e
         | Inr r_last \<Rightarrow>
      (let steady_state_error' = \<bar>p_last - r_last\<bar>;
           tolerance = 2 / 100
       in case np_broadcast (\<lambda>d r. d < tolerance * r) (map abs diff) (map abs reference_y) of
           Inl e \<Rightarrow> Inl e
         | Inr within_tolerance \<Rightarrow>
      (let settling_time' = settling_scan within_tolerance T
       in Inr \<lparr>overshoot = overshoot',
               steady_state_error = steady_state_error',
               settling_time = settling_time',
               settling_time_seconds = real settling_time' * dt (plant self)\<rparr>)))))))"

subsection \<open>The tolerance band, and the settling rule as the specification words it\<close>

text \<open>
  Entry \<open>t\<close> of \<^verbatim>\<open>within_tolerance\<close> for a trajectory and a reference of the same
  length: \<open>|position_y[t] - reference[t]| < 0.02 * |reference[t]|\<close>. The specification's
  \<open>within[t]\<close> is the same formula.
\<close>

definition within_tolerance_at :: "real list \<Rightarrow> real list \<Rightarrow> nat \<Rightarrow> bool" where
  "within_tolerance_at position_y reference_y t =
     (\<bar>position_y ! t - reference_y ! t\<bar> < (2 / 100) * \<bar>reference_y ! t\<bar>)"

text \<open>
  The specification's rule, from its section 4.4, for a trajectory and a reference of
  the same length \<open>T\<close>: scan from \<open>t = T - 2\<close> down to \<open>t = 1\<close>; the settling index
  is the first index (scanning backward) where \<open>within\<close> is false, plus 1, and \<open>T - 1\<close>
  when there is none; the settling time is \<open>(settling_index + 1) * dt\<close>. It is kept
  apart from the code's \<open>settling_scan\<close> and compared with it.
\<close>

definition spec_settling_index :: "real list \<Rightarrow> real list \<Rightarrow> nat" where
  "spec_settling_index position_y reference_y =
     (let T = length reference_y in
      case find (\<lambda>i. \<not> within_tolerance_at position_y reference_y i) (rev [1..<T - 1]) of
        Some i \<Rightarrow> i + 1
      | None \<Rightarrow> T - 1)"

definition spec_settling_time_seconds :: "real \<Rightarrow> real list \<Rightarrow> real list \<Rightarrow> real" where
  "spec_settling_time_seconds step position_y reference_y =
     (real (spec_settling_index position_y reference_y) + 1) * step"

subsection \<open>Example inputs\<close>

text \<open>
  \<^verbatim>\<open>ClosedLoop(Submarine(), PDController())\<close>, the closed loop with the default gains and
  vehicle constants, and a mission whose two cave bounds coincide with its reference
  (the simulation and the metrics read \<^verbatim>\<open>mission.reference\<close> only).
\<close>

definition default_loop :: ClosedLoop where
  "default_loop = \<lparr>plant = Submarine_init, controller = PDController_default\<rparr>"

definition example_mission :: "real list \<Rightarrow> Mission" where
  "example_mission r = \<lparr>reference = r, cave_height = r, cave_depth = r\<rparr>"

subsection \<open>Names for the states of a run\<close>

text \<open>
  The state on entry to the loop of \<^verbatim>\<open>simulate\<close> (after \<^verbatim>\<open>reset_state\<close>, with the two
  zero arrays), and the state after the first \<open>t\<close> iterations, which is the state at
  the start of step \<open>t\<close>. Both are read off \<open>simulate\<close> and only name its
  intermediate states.
\<close>

definition simulate_start :: "ClosedLoop \<Rightarrow> nat \<Rightarrow> sim_state" where
  "simulate_start self T =
     \<lparr>loop = self\<lparr>plant := reset_state (plant self)\<rparr>,
      positions = replicate T (0, 0), actions = replicate T 0\<rparr>"

definition state_before_step :: "ClosedLoop \<Rightarrow> Mission \<Rightarrow> real list \<Rightarrow> nat \<Rightarrow> sim_state" where
  "state_before_step self mission disturbances t =
     simulate_loop mission disturbances [0..<t] (simulate_start self (length (reference mission)))"

section \<open>Properties\<close>

subsection \<open>The vehicle's step\<close>

lemma transition_consts [simp]:
  "mass (transition s a w) = mass s"
  "drag (transition s a w) = drag s"
  "actuator_gain (transition s a w) = actuator_gain s"
  "dt (transition s a w) = dt s"
  "vel_x (transition s a w) = vel_x s"
  by (simp_all add: transition_def Let_def)

lemma transition_pos [simp]:
  "pos_x (transition s a w) = pos_x s + vel_x s * dt s"
  "pos_y (transition s a w) = pos_y s + vel_y s * dt s"
  by (simp_all add: transition_def Let_def)

text \<open>
  Claim C6. For every action, disturbance and vehicle state (with the nonzero mass the
  division needs), \<open>transition\<close> is this update of the old state \<open>s\<close>: \<open>pos_x\<close> grows
  by \<open>vel_x * dt\<close>, \<open>pos_y\<close> grows by \<open>vel_y * dt\<close> with the velocity of before the
  step, and \<open>vel_y\<close> grows by \<open>acc_y * dt\<close> where
  \<open>acc_y = (- drag * vel_y + actuator_gain * (action + disturbance)) / mass\<close>, again
  from the old velocity. All other fields keep their values.
\<close>

theorem transition_ordered_update:
  assumes "mass s \<noteq> 0"
  shows "transition s action disturbance =
     s\<lparr>pos_x := pos_x s + vel_x s * dt s,
       pos_y := pos_y s + vel_y s * dt s,
       vel_y := vel_y s
          + ((- drag s * vel_y s + actuator_gain s * (action + disturbance)) / mass s) * dt s\<rparr>"
  by (simp add: transition_def Let_def)

theorem transition_ordered_update_witness:
  "mass Submarine_init \<noteq> 0 \<and>
   transition (Submarine_init\<lparr>vel_y := 2\<rparr>) 3 4 =
     \<lparr>mass = 1, drag = 1 / 10, actuator_gain = 1, dt = 1,
      pos_x = 1, pos_y = 2, vel_x = 1, vel_y = 88 / 10\<rparr>"
  using transition_ordered_update [of "Submarine_init\<lparr>vel_y := 2\<rparr>" 3 4]
  by (simp add: Submarine_init_def)

subsection \<open>The control law\<close>

text \<open>
  Claim C5. For every reference, depth and controller state, \<open>compute_control_action\<close>
  returns \<open>kp * error + kd * (error - previous_error)\<close> with
  \<open>error = reference - current_depth\<close>, and the controller it leaves differs from the
  one it found in \<open>previous_error\<close> only, which is \<open>error\<close>. A freshly constructed
  controller has \<open>previous_error = 0\<close>, so the first call computes against 0.
\<close>

theorem compute_control_action_pd:
  "compute_control_action c reference_t current_depth =
     (kp c * (reference_t - current_depth)
        + kd c * ((reference_t - current_depth) - previous_error c),
      c\<lparr>previous_error := reference_t - current_depth\<rparr>)
   \<and> previous_error (PDController_init p d) = 0
   \<and> kp (PDController_init p d) = p \<and> kd (PDController_init p d) = d"
  by (simp add: compute_control_action_def PDController_init_def Let_def)

subsection \<open>The loop of simulate\<close>

lemma simulate_body_positions:
  "positions (simulate_body m d t st) = (positions st)[t := get_position (plant (loop st))]"
  by (simp add: simulate_body_def Let_def split: prod.splits)

lemma simulate_body_plant:
  "plant (loop (simulate_body m d t st)) =
     transition (plant (loop st))
       ((actions st)[t := fst (compute_control_action (controller (loop st)) (reference m ! t)
                                 (get_depth (plant (loop st))))] ! t)
       (d ! t)"
  by (simp add: simulate_body_def Let_def split: prod.splits)

lemma simulate_body_controller:
  "controller (loop (simulate_body m d t st)) =
     snd (compute_control_action (controller (loop st)) (reference m ! t)
            (get_depth (plant (loop st))))"
  by (simp add: simulate_body_def Let_def split: prod.splits)

lemma simulate_loop_append:
  "simulate_loop m d (xs @ ys) st = simulate_loop m d ys (simulate_loop m d xs st)"
  by (induction xs arbitrary: st) simp_all

lemma simulate_loop_positions_length:
  "length (positions (simulate_loop m d ts st)) = length (positions st)"
  by (induction ts arbitrary: st) (simp_all add: simulate_body_positions)

lemma simulate_loop_positions_other:
  "t \<notin> set ts \<Longrightarrow> positions (simulate_loop m d ts st) ! t = positions st ! t"
  by (induction ts arbitrary: st) (auto simp add: simulate_body_positions)

lemma simulate_loop_cong_disturbances:
  "(\<And>t. t \<in> set ts \<Longrightarrow> d1 ! t = d2 ! t) \<Longrightarrow>
   simulate_loop m d1 ts st = simulate_loop m d2 ts st"
proof (induction ts arbitrary: st)
  case Nil
  show ?case by simp
next
  case (Cons t ts)
  have "d1 ! t = d2 ! t" using Cons.prems by simp
  then have "simulate_body m d1 t st = simulate_body m d2 t st"
    by (simp add: simulate_body_def)
  then show ?case using Cons by simp
qed

lemma simulate_loop_consts:
  "dt (plant (loop (simulate_loop m d ts st))) = dt (plant (loop st))"
  "vel_x (plant (loop (simulate_loop m d ts st))) = vel_x (plant (loop st))"
  by (induction ts arbitrary: st) (simp_all add: simulate_body_plant)

lemma simulate_loop_pos_x:
  "pos_x (plant (loop (simulate_loop m d ts st))) =
     pos_x (plant (loop st))
       + real (length ts) * (vel_x (plant (loop st)) * dt (plant (loop st)))"
  by (induction ts arbitrary: st) (simp_all add: simulate_body_plant algebra_simps)

lemma upt_split_at: "t < T \<Longrightarrow> [0..<T] = [0..<t] @ t # [Suc t..<T]"
proof -
  assume lt: "t < T"
  have "[0..<T] = [0..<t] @ [t..<T]"
    using lt by (metis le_add_diff_inverse less_imp_le_nat upt_add_eq_append zero_le)
  moreover have "[t..<T] = t # [Suc t..<T]"
    using lt by (simp add: upt_conv_Cons)
  ultimately show ?thesis by simp
qed

lemma simulate_loop_positions_at:
  assumes "t < T" "length (positions st) = T"
  shows "positions (simulate_loop m d [0..<T] st) ! t =
           get_position (plant (loop (simulate_loop m d [0..<t] st)))"
proof -
  let ?st = "simulate_loop m d [0..<t] st"
  have "positions (simulate_loop m d [0..<T] st) ! t =
          positions (simulate_loop m d [Suc t..<T] (simulate_body m d t ?st)) ! t"
    by (simp add: upt_split_at [OF assms(1)] simulate_loop_append)
  also have "\<dots> = positions (simulate_body m d t ?st) ! t"
    by (rule simulate_loop_positions_other) simp
  also have "\<dots> = get_position (plant (loop ?st))"
    using assms by (simp add: simulate_body_positions simulate_loop_positions_length)
  finally show ?thesis .
qed

subsection \<open>simulate: the two outcomes\<close>

lemma simulate_ok:
  "length (reference m) \<le> length d \<Longrightarrow>
   simulate self m d =
     (Inr \<lparr>position = positions (state_before_step self m d (length (reference m)))\<rparr>,
      loop (state_before_step self m d (length (reference m))))"
  by (simp add: simulate_def simulate_start_def state_before_step_def Let_def)

lemma simulate_raises:
  "length d < length (reference m) \<Longrightarrow> simulate self m d = (Inl ValueError, self)"
  by (simp add: simulate_def Let_def)

text \<open>
  Claim C3. \<open>simulate\<close> raises exactly when the disturbance sequence is shorter than
  the mission's reference, the exception is the \<^verbatim>\<open>ValueError\<close> of the length check,
  and the closed loop it leaves is the one it was called on: the vehicle has not been
  reset and the controller's \<open>previous_error\<close> has not been written.
\<close>

theorem simulate_raises_iff_short:
  "((\<exists>e. fst (simulate self m d) = Inl e) \<longleftrightarrow> length d < length (reference m)) \<and>
   (length d < length (reference m) \<longrightarrow> simulate self m d = (Inl ValueError, self))"
proof (cases "length d < length (reference m)")
  case True
  then show ?thesis by (simp add: simulate_raises)
next
  case False
  then have "length (reference m) \<le> length d" by simp
  then show ?thesis using False by (simp add: simulate_ok)
qed

theorem simulate_raises_iff_short_witness:
  "length [1::real] < length (reference (example_mission [0, 0]))
   \<and> simulate (default_loop\<lparr>controller := (PDController_init 2 3)\<lparr>previous_error := 7\<rparr>\<rparr>)
        (example_mission [0, 0]) [1]
     = (Inl ValueError, default_loop\<lparr>controller := (PDController_init 2 3)\<lparr>previous_error := 7\<rparr>\<rparr>)
   \<and> \<not> (\<exists>e. fst (simulate default_loop (example_mission [0, 0]) [1, 1]) = Inl e)"
  using simulate_raises_iff_short
    [of "default_loop\<lparr>controller := (PDController_init 2 3)\<lparr>previous_error := 7\<rparr>\<rparr>"
        "example_mission [0, 0]" "[1]"]
    simulate_raises_iff_short [of default_loop "example_mission [0, 0]" "[1, 1]"]
  by (simp add: example_mission_def)

lemma state_before_step_zero:
  "state_before_step self m d 0 = simulate_start self (length (reference m))"
  by (simp add: state_before_step_def)

lemma state_before_step_Suc:
  "state_before_step self m d (Suc t) = simulate_body m d t (state_before_step self m d t)"
  by (simp add: state_before_step_def simulate_loop_append)

lemma state_before_step_positions_length:
  "length (positions (state_before_step self m d t)) = length (reference m)"
  by (simp add: state_before_step_def simulate_loop_positions_length simulate_start_def)

lemma state_before_step_0:
  "get_position (plant (loop (state_before_step self m d 0))) = (0, 0)"
  by (simp add: state_before_step_def simulate_start_def reset_state_def get_position_def)

lemma state_before_step_pos_x:
  "pos_x (plant (loop (state_before_step self m d t))) = real t * dt (plant self)"
  by (simp add: state_before_step_def simulate_loop_pos_x simulate_start_def reset_state_def)

lemma state_before_step_entry:
  "t < length (reference m) \<Longrightarrow>
   positions (state_before_step self m d (length (reference m))) ! t =
     get_position (plant (loop (state_before_step self m d t)))"
  unfolding state_before_step_def
  by (rule simulate_loop_positions_at) (simp_all add: simulate_start_def)

text \<open>
  Claim C4. For every mission of horizon \<open>T\<close> and every disturbance sequence of length
  at least \<open>T\<close>, \<open>simulate\<close> returns a trajectory of exactly \<open>T\<close> rows. Row \<open>t\<close> is the
  vehicle's position at the start of step \<open>t\<close>, that is after the first \<open>t\<close> transitions
  and before the next; row 0 is the reset position \<open>(0, 0)\<close>. The vehicle the call
  leaves is the one after all \<open>T\<close> transitions, and (the time step not being zero) its
  position is no row of the trajectory.
\<close>

theorem simulate_trajectory_entries:
  assumes "length (reference m) \<le> length d"
  shows "\<exists>tr self'. simulate self m d = (Inr tr, self')
     \<and> length (position tr) = length (reference m)
     \<and> (\<forall>t < length (reference m).
           position tr ! t = get_position (plant (loop (state_before_step self m d t))))
     \<and> (0 < length (reference m) \<longrightarrow> position tr ! 0 = (0, 0))
     \<and> self' = loop (state_before_step self m d (length (reference m)))
     \<and> (dt (plant self) \<noteq> 0 \<longrightarrow> get_position (plant self') \<notin> set (position tr))"
proof -
  let ?T = "length (reference m)"
  let ?tr = "\<lparr>position = positions (state_before_step self m d ?T)\<rparr>"
  let ?self' = "loop (state_before_step self m d ?T)"
  have run: "simulate self m d = (Inr ?tr, ?self')"
    using assms by (rule simulate_ok)
  have len: "length (position ?tr) = ?T"
    by (simp add: state_before_step_positions_length)
  have entry: "position ?tr ! t = get_position (plant (loop (state_before_step self m d t)))"
    if "t < ?T" for t
    using that by (simp add: state_before_step_entry)
  have first: "position ?tr ! 0 = (0, 0)" if "0 < ?T"
    using entry [OF that] by (simp add: state_before_step_0)
  have fresh: "get_position (plant ?self') \<notin> set (position ?tr)" if nz: "dt (plant self) \<noteq> 0"
  proof
    assume "get_position (plant ?self') \<in> set (position ?tr)"
    then obtain t where t: "t < ?T" "position ?tr ! t = get_position (plant ?self')"
      using len by (auto simp: in_set_conv_nth)
    then have "pos_x (plant (loop (state_before_step self m d t))) = pos_x (plant ?self')"
      using entry [of t] by (simp add: get_position_def)
    then have "real t * dt (plant self) = real ?T * dt (plant self)"
      by (simp add: state_before_step_pos_x)
    then show False using nz t(1) by simp
  qed
  show ?thesis
    using run len entry first fresh by blast
qed

theorem simulate_trajectory_entries_witness:
  "length (reference (example_mission [1, 1, 1])) \<le> length [0, 0, 0, 9 :: real]
   \<and> (\<exists>tr self'. simulate default_loop (example_mission [1, 1, 1]) [0, 0, 0, 9] = (Inr tr, self')
          \<and> length (position tr) = 3 \<and> position tr ! 0 = (0, 0)
          \<and> get_position (plant self') \<notin> set (position tr))"
proof -
  have "dt (plant default_loop) \<noteq> 0"
    by (simp add: default_loop_def Submarine_init_def)
  then show ?thesis
    using simulate_trajectory_entries [of "example_mission [1, 1, 1]" "[0, 0, 0, 9]" default_loop]
    by (auto simp add: example_mission_def)
qed

text \<open>
  Claim C9. For every mission of horizon \<open>T\<close> and two disturbance sequences of length at
  least \<open>T\<close> that agree on the indices \<open>0\<close> to \<open>T - 1\<close>, \<open>simulate\<close> from the same closed
  loop (vehicle and controller) gives the same trajectory, and leaves the same closed
  loop.
\<close>

theorem simulate_ignores_tail:
  assumes "length (reference m) \<le> length d1" "length (reference m) \<le> length d2"
    and "take (length (reference m)) d1 = take (length (reference m)) d2"
  shows "simulate self m d1 = simulate self m d2"
proof -
  have "d1 ! t = d2 ! t" if "t < length (reference m)" for t
    using that assms(3) by (metis nth_take)
  then have "state_before_step self m d1 (length (reference m)) =
             state_before_step self m d2 (length (reference m))"
    unfolding state_before_step_def
    by (intro simulate_loop_cong_disturbances) simp
  then show ?thesis
    by (simp add: simulate_ok assms(1,2))
qed

theorem simulate_ignores_tail_witness:
  "length (reference (example_mission [1, 1, 1])) \<le> length [0, 2, 0 :: real]
   \<and> length (reference (example_mission [1, 1, 1])) \<le> length [0, 2, 0, 9, 8 :: real]
   \<and> take (length (reference (example_mission [1, 1, 1]))) [0, 2, 0 :: real]
       = take (length (reference (example_mission [1, 1, 1]))) [0, 2, 0, 9, 8]
   \<and> simulate default_loop (example_mission [1, 1, 1]) [0, 2, 0]
       = simulate default_loop (example_mission [1, 1, 1]) [0, 2, 0, 9, 8]"
  using simulate_ignores_tail [of "example_mission [1, 1, 1]" "[0, 2, 0]" "[0, 2, 0, 9, 8]" default_loop]
  by (simp add: example_mission_def)

text \<open>
  Claim C10. For every mission of horizon \<open>T\<close>, every disturbance sequence of length at
  least \<open>T\<close>, and every controller (gains and \<open>previous_error\<close>), row \<open>t\<close> of the
  trajectory has the x-coordinate \<open>t * dt\<close>; with the constructor's \<open>dt = 1\<close> the
  x-coordinates are \<open>0, 1, \<dots>, T - 1\<close>.
\<close>

theorem simulate_x_track:
  assumes "length (reference m) \<le> length d"
  shows "\<exists>tr self'. simulate self m d = (Inr tr, self')
     \<and> map fst (position tr) = map (\<lambda>t. real t * dt (plant self)) [0..<length (reference m)]
     \<and> (dt (plant self) = 1 \<longrightarrow> map fst (position tr) = map real [0..<length (reference m)])"
proof -
  let ?T = "length (reference m)"
  let ?tr = "\<lparr>position = positions (state_before_step self m d ?T)\<rparr>"
  have run: "simulate self m d = (Inr ?tr, loop (state_before_step self m d ?T))"
    using assms by (rule simulate_ok)
  have xs: "map fst (position ?tr) = map (\<lambda>t. real t * dt (plant self)) [0..<?T]"
    by (rule nth_equalityI)
       (simp_all add: state_before_step_positions_length state_before_step_entry
          get_position_def state_before_step_pos_x)
  then have "dt (plant self) = 1 \<longrightarrow> map fst (position ?tr) = map real [0..<?T]"
    by simp
  with run xs show ?thesis by blast
qed

theorem simulate_x_track_witness:
  "length (reference (example_mission [1, 1, 1])) \<le> length [0, 2, 0 :: real]
   \<and> (\<exists>tr self'. simulate default_loop (example_mission [1, 1, 1]) [0, 2, 0] = (Inr tr, self')
          \<and> map fst (position tr) = [0, 1, 2])"
proof -
  have "dt (plant default_loop) = 1"
    by (simp add: default_loop_def Submarine_init_def)
  then show ?thesis
    using simulate_x_track [of "example_mission [1, 1, 1]" "[0, 2, 0]" default_loop]
    by (auto simp add: example_mission_def)
qed

subsection \<open>Concrete runs\<close>

lemmas simulate_eval = simulate_def Let_def default_loop_def example_mission_def
  Submarine_init_def PDController_default_def PDController_init_def reset_state_def
  simulate_body_def get_position_def get_depth_def compute_control_action_def transition_def

lemma upt_0_5: "[0..<5] = [0, 1, 2, 3, 4]"
  by (simp add: upt_rec)

lemma upt_0_3: "[0..<3] = [0, 1, 2]"
  by (simp add: upt_rec)

text \<open>
  Claim C2, as amended. With the reference \<open>[0, 0, 0, 0, 0]\<close>, the disturbances
  \<open>[1, 0, 0, 0, 0]\<close>, the default gains and the default vehicle constants, \<open>simulate\<close>
  returns a trajectory of five rows whose y-coordinates at the indices 0 and 1 are 0 and
  whose y-coordinate at index 2 is 1: the velocity gained in step 0 moves the vehicle in
  the transition of step 1, and that position is recorded at the start of step 2.
\<close>

theorem simulate_unit_disturbance:
  "\<exists>tr self'. simulate default_loop (example_mission [0, 0, 0, 0, 0]) [1, 0, 0, 0, 0] = (Inr tr, self')
     \<and> length (position tr) = 5
     \<and> snd (position tr ! 0) = 0 \<and> snd (position tr ! 1) = 0 \<and> snd (position tr ! 2) = 1"
  by (simp add: simulate_eval upt_0_5)

text \<open>
  The claim as stated fails on this input: no returned trajectory has 0 at index 0 and 1
  at index 1.
\<close>

theorem simulate_unit_disturbance_counterexample:
  "\<not> (\<exists>tr self'. simulate default_loop (example_mission [0, 0, 0, 0, 0]) [1, 0, 0, 0, 0] = (Inr tr, self')
         \<and> snd (position tr ! 0) = 0 \<and> snd (position tr ! 1) = 1)"
  by (simp add: simulate_eval upt_0_5)

text \<open>
  Claim C8. The loop of \<open>simulate\<close> starts with the controller as the caller left it
  (only the vehicle is reset), and two consecutive calls with the same inputs differ:
  with the constant reference \<open>[1, 1, 1]\<close>, zero disturbances and the default closed
  loop, the first call returns the y-track \<open>0, 0, 3/4\<close> and leaves
  \<open>previous_error = 1/4\<close> where it found 0; the second call, on the closed loop the
  first one left, returns the y-track \<open>0, 0, 3/5\<close>.
\<close>

theorem simulate_not_idempotent:
  "controller (loop (simulate_start self T)) = controller self
   \<and> (\<exists>tr1 self1 tr2 self2.
        simulate default_loop (example_mission [1, 1, 1]) [0, 0, 0] = (Inr tr1, self1)
      \<and> simulate self1 (example_mission [1, 1, 1]) [0, 0, 0] = (Inr tr2, self2)
      \<and> tr1 \<noteq> tr2
      \<and> position tr1 = [(0, 0), (1, 0), (2, 3 / 4)]
      \<and> position tr2 = [(0, 0), (1, 0), (2, 3 / 5)]
      \<and> previous_error (controller default_loop) = 0
      \<and> previous_error (controller self1) = 1 / 4)"
  by (simp add: simulate_start_def simulate_eval upt_0_3)

subsection \<open>The metrics\<close>

lemma np_broadcast_same_length:
  "length xs = length ys \<Longrightarrow> np_broadcast f xs ys = Inr (map2 f xs ys)"
  by (simp add: np_broadcast_def)

lemma np_max_Max: "xs \<noteq> [] \<Longrightarrow> np_max xs = Inr (Max (set xs))"
  by (cases xs) (simp_all add: np_max_def flip: Max.set_eq_fold)

lemma np_max_nth:
  assumes "xs \<noteq> []"
  shows "np_max xs = Inr (Max ((\<lambda>t. xs ! t) ` {..<length xs}))"
proof -
  have "set xs = (\<lambda>t. xs ! t) ` {..<length xs}"
    by (auto simp: set_conv_nth)
  then show ?thesis using np_max_Max [OF assms] by simp
qed

lemma find_rev_upt_Some:
  "find P (rev [1..<T]) = Some i \<Longrightarrow>
     1 \<le> i \<and> i < T \<and> P i \<and> (\<forall>j. i < j \<and> j < T \<longrightarrow> \<not> P j)"
proof (induction T)
  case 0
  then show ?case by simp
next
  case (Suc T)
  show ?case
  proof (cases "1 \<le> T")
    case False
    then show ?thesis using Suc.prems by simp
  next
    case True
    then have r: "rev [1..<Suc T] = T # rev [1..<T]" by simp
    show ?thesis
    proof (cases "P T")
      case True
      then have "i = T" using Suc.prems r by simp
      then show ?thesis using True \<open>1 \<le> T\<close> by auto
    next
      case False
      then have "find P (rev [1..<T]) = Some i" using Suc.prems r by simp
      from Suc.IH [OF this] show ?thesis using False
        by (auto simp: less_Suc_eq)
    qed
  qed
qed

lemma settling_scan_none:
  assumes "\<forall>i. 1 \<le> i \<and> i < T \<longrightarrow> w ! i" "1 \<le> T"
  shows "settling_scan w T = T"
proof -
  have "find (\<lambda>i. \<not> w ! i) (rev [1..<T]) = None"
    using assms(1) by (auto simp: find_None_iff)
  then show ?thesis using assms(2) by (simp add: settling_scan_def)
qed

lemma settling_scan_last:
  assumes "1 \<le> i" "i < T" "\<not> w ! i" "\<forall>j. i < j \<and> j < T \<longrightarrow> w ! j"
  shows "settling_scan w T = i + 1"
proof (cases "find (\<lambda>i. \<not> w ! i) (rev [1..<T])")
  case None
  then show ?thesis using assms by (auto simp: find_None_iff)
next
  case (Some k)
  from find_rev_upt_Some [OF this]
  have k: "1 \<le> k" "k < T" "\<not> w ! k" "\<forall>j. k < j \<and> j < T \<longrightarrow> w ! j" by auto
  have "k = i"
  proof (rule ccontr)
    assume "k \<noteq> i"
    then consider "k < i" | "i < k" by linarith
    then show False using k assms by cases auto
  qed
  then show ?thesis using Some by (simp add: settling_scan_def)
qed

lemma metrics_same_length:
  assumes len: "length (position tr) = length (reference m)" and ne: "reference m \<noteq> []"
  shows "calculate_performance_metrics self tr m =
     Inr \<lparr>overshoot =
            map_option (\<lambda>q. q * 100)
              (np_divide (Max ((\<lambda>t. \<bar>snd (position tr ! t) - reference m ! t\<bar>) ` {..<length (reference m)}))
                         (Max ((\<lambda>t. \<bar>reference m ! t\<bar>) ` {..<length (reference m)}))),
          steady_state_error =
            \<bar>snd (position tr ! (length (reference m) - 1)) - reference m ! (length (reference m) - 1)\<bar>,
          settling_time =
            settling_scan (map (\<lambda>t. within_tolerance_at (map snd (position tr)) (reference m) t) [0..<length (reference m)])
              (length (reference m)),
          settling_time_seconds =
            real (settling_scan (map (\<lambda>t. within_tolerance_at (map snd (position tr)) (reference m) t) [0..<length (reference m)])
              (length (reference m))) * dt (plant self)\<rparr>"
proof -
  let ?py = "map snd (position tr)"
  let ?ref = "reference m"
  let ?T = "length ?ref"
  let ?diff = "map2 (\<lambda>p r. p - r) ?py ?ref"
  have lpy: "length ?py = ?T" using len by simp
  have pne: "?py \<noteq> []" using lpy ne by auto
  have b1: "np_broadcast (\<lambda>p r. p - r) ?py ?ref = Inr ?diff"
    using lpy by (rule np_broadcast_same_length)
  have ldiff: "length ?diff = ?T" using lpy by simp
  have dne: "map abs ?diff \<noteq> []" using ldiff ne by auto
  have m1: "np_max (map abs ?diff) =
      Inr (Max ((\<lambda>t. \<bar>snd (position tr ! t) - ?ref ! t\<bar>) ` {..<?T}))"
  proof -
    have "(\<lambda>t. map abs ?diff ! t) ` {..<length (map abs ?diff)} =
          (\<lambda>t. \<bar>snd (position tr ! t) - ?ref ! t\<bar>) ` {..<?T}"
      using len by (intro image_cong) (simp_all)
    then show ?thesis using np_max_nth [OF dne] by simp
  qed
  have m2: "np_max (map abs ?ref) = Inr (Max ((\<lambda>t. \<bar>?ref ! t\<bar>) ` {..<?T}))"
  proof -
    have "(\<lambda>t. map abs ?ref ! t) ` {..<length (map abs ?ref)} = (\<lambda>t. \<bar>?ref ! t\<bar>) ` {..<?T}"
      by (intro image_cong) simp_all
    moreover have "map abs ?ref \<noteq> []" using ne by simp
    ultimately show ?thesis using np_max_nth [of "map abs ?ref"] by simp
  qed
  have l1: "np_last ?py = Inr (snd (position tr ! (?T - 1)))"
  proof -
    have "?T - 1 < length (position tr)" using len ne by simp
    then have "?py ! (?T - 1) = snd (position tr ! (?T - 1))" by (rule nth_map)
    then show ?thesis using pne lpy by (simp add: np_last_def last_conv_nth)
  qed
  have l2: "np_last ?ref = Inr (?ref ! (?T - 1))"
    using ne by (simp add: np_last_def last_conv_nth)
  have b2: "np_broadcast (\<lambda>d r. d < (2 / 100) * r) (map abs ?diff) (map abs ?ref) =
      Inr (map (\<lambda>t. within_tolerance_at ?py ?ref t) [0..<?T])"
  proof -
    have "map2 (\<lambda>d r. d < (2 / 100) * r) (map abs ?diff) (map abs ?ref) =
          map (\<lambda>t. within_tolerance_at ?py ?ref t) [0..<?T]"
      using lpy by (intro nth_equalityI) (simp_all add: within_tolerance_at_def)
    then show ?thesis using ldiff by (simp add: np_broadcast_def)
  qed
  show ?thesis
    unfolding calculate_performance_metrics_def Let_def
    by (simp only: b1 m1 m2 l1 l2 b2 sum.case)
qed

lemmas metrics_eval = calculate_performance_metrics_def Let_def np_broadcast_def np_max_def
  np_last_def np_divide_def settling_scan_def example_mission_def default_loop_def
  Submarine_init_def within_tolerance_at_def

lemma Max_abs_reference_pos:
  assumes "t < length ref" "ref ! t \<noteq> (0::real)"
  shows "0 < Max ((\<lambda>t. \<bar>ref ! t\<bar>) ` {..<length ref})"
proof -
  have "\<bar>ref ! t\<bar> \<le> Max ((\<lambda>t. \<bar>ref ! t\<bar>) ` {..<length ref})"
    using assms(1) by (intro Max_ge) auto
  moreover have "0 < \<bar>ref ! t\<bar>" using assms(2) by simp
  ultimately show ?thesis by linarith
qed

lemma Max_abs_reference_zero_iff:
  assumes "ref \<noteq> []"
  shows "Max ((\<lambda>t. \<bar>ref ! t\<bar>) ` {..<length ref}) = 0 \<longleftrightarrow> (\<forall>t<length ref. ref ! t = (0::real))"
proof
  assume z: "Max ((\<lambda>t. \<bar>ref ! t\<bar>) ` {..<length ref}) = 0"
  show "\<forall>t<length ref. ref ! t = 0"
  proof (intro allI impI)
    fix t assume "t < length ref"
    then show "ref ! t = 0"
      using Max_abs_reference_pos [of t ref] z by fastforce
  qed
next
  assume "\<forall>t<length ref. ref ! t = 0"
  then have "(\<lambda>t. \<bar>ref ! t\<bar>) ` {..<length ref} = {0}"
    using assms by (auto simp: image_iff)
  then show "Max ((\<lambda>t. \<bar>ref ! t\<bar>) ` {..<length ref}) = 0" by simp
qed

text \<open>
  Claim C7. For every trajectory and reference of the same length \<open>T \<ge> 1\<close>,
  \<open>calculate_performance_metrics\<close> returns normally and reports the overshoot
  \<open>100 * max |position_y[t] - reference[t]| / max |reference[t]|\<close>, both maxima over
  \<open>t < T\<close>, and the steady-state error \<open>|position_y[T-1] - reference[T-1]|\<close>. When
  the peak reference is zero, which is when the reference is zero everywhere, the
  quotient has a zero divisor and the reported overshoot is numpy's non-finite value of
  that same quotient (\<open>None\<close>); the steady-state error is the stated one in both cases.
\<close>

theorem metrics_overshoot_steady_state:
  assumes "length (position tr) = length (reference m)" and "reference m \<noteq> []"
  shows "\<exists>r. calculate_performance_metrics self tr m = Inr r
     \<and> overshoot r =
         (if Max ((\<lambda>t. \<bar>reference m ! t\<bar>) ` {..<length (reference m)}) = 0 then None
          else Some (100 * Max ((\<lambda>t. \<bar>snd (position tr ! t) - reference m ! t\<bar>) ` {..<length (reference m)})
                 / Max ((\<lambda>t. \<bar>reference m ! t\<bar>) ` {..<length (reference m)})))
     \<and> steady_state_error r =
         \<bar>snd (position tr ! (length (reference m) - 1)) - reference m ! (length (reference m) - 1)\<bar>"
  by (simp add: metrics_same_length [OF assms] np_divide_def)

theorem metrics_overshoot_steady_state_witness:
  "length (position \<lparr>position = [(0, 0), (1, 5), (2, 1)]\<rparr>) = length (reference (example_mission [1, 1, 1]))
   \<and> reference (example_mission [1, 1, 1]) \<noteq> []
   \<and> (\<exists>r. calculate_performance_metrics default_loop \<lparr>position = [(0, 0), (1, 5), (2, 1)]\<rparr>
              (example_mission [1, 1, 1]) = Inr r
          \<and> overshoot r = Some 400 \<and> steady_state_error r = 0)
   \<and> length (position \<lparr>position = [(0, 0), (1, 5), (2, 1)]\<rparr>) = length (reference (example_mission [0, 0, 0]))
   \<and> reference (example_mission [0, 0, 0]) \<noteq> []
   \<and> (\<exists>r. calculate_performance_metrics default_loop \<lparr>position = [(0, 0), (1, 5), (2, 1)]\<rparr>
              (example_mission [0, 0, 0]) = Inr r
          \<and> overshoot r = None \<and> steady_state_error r = 1)"
  using metrics_overshoot_steady_state
    [of "\<lparr>position = [(0, 0), (1, 5), (2, 1)]\<rparr>" "example_mission [1, 1, 1]" default_loop]
    metrics_overshoot_steady_state
    [of "\<lparr>position = [(0, 0), (1, 5), (2, 1)]\<rparr>" "example_mission [0, 0, 0]" default_loop]
  by (simp add: example_mission_def lessThan_Suc)

text \<open>
  An empty reference (\<open>T = 0\<close>) leaves both maxima without elements: the function raises
  \<^verbatim>\<open>ValueError\<close>, from the subtraction when the shapes cannot be broadcast and from
  \<^verbatim>\<open>np.max\<close> otherwise.
\<close>

lemma metrics_empty_reference:
  assumes "reference m = []"
  shows "calculate_performance_metrics self tr m = Inl ValueError"
proof -
  have "np_broadcast (\<lambda>p r. p - r) (map snd (position tr)) [] = Inl ValueError
      \<or> np_broadcast (\<lambda>p r. p - r) (map snd (position tr)) [] = Inr []"
    by (simp add: np_broadcast_def)
  then show ?thesis
  proof
    assume "np_broadcast (\<lambda>p r. p - r) (map snd (position tr)) [] = Inl ValueError"
    then show ?thesis
      using assms by (simp add: calculate_performance_metrics_def)
  next
    assume "np_broadcast (\<lambda>p r. p - r) (map snd (position tr)) [] = Inr []"
    then show ?thesis
      using assms by (simp add: calculate_performance_metrics_def np_max_def)
  qed
qed

text \<open>
  Claim C1, as amended. For a trajectory and a reference of the same length \<open>T \<ge> 1\<close>,
  with \<open>within[t] = (|position_y[t] - reference[t]| < 0.02 * |reference[t]|)\<close>: the scan
  runs from \<open>t = T - 1\<close> down to \<open>t = 1\<close>; \<open>settling_time\<close> is the first index
  (scanning backward, so the greatest) where \<open>within\<close> is false, plus 1, and it is \<open>T\<close>
  when \<open>within\<close> holds at every index from 1 to \<open>T - 1\<close>; the reported time in seconds is
  \<open>settling_time * dt\<close>.
\<close>

theorem settling_time_backward_scan:
  assumes "length (position tr) = length (reference m)" and "reference m \<noteq> []"
  shows "\<exists>r. calculate_performance_metrics self tr m = Inr r
     \<and> ((\<forall>i. 1 \<le> i \<and> i < length (reference m)
              \<longrightarrow> within_tolerance_at (map snd (position tr)) (reference m) i)
          \<longrightarrow> settling_time r = length (reference m))
     \<and> (\<forall>i. 1 \<le> i \<and> i < length (reference m)
            \<and> \<not> within_tolerance_at (map snd (position tr)) (reference m) i
            \<and> (\<forall>j. i < j \<and> j < length (reference m)
                   \<longrightarrow> within_tolerance_at (map snd (position tr)) (reference m) j)
          \<longrightarrow> settling_time r = i + 1)
     \<and> settling_time_seconds r = real (settling_time r) * dt (plant self)"
proof -
  let ?T = "length (reference m)"
  let ?W = "within_tolerance_at (map snd (position tr)) (reference m)"
  let ?w = "map (\<lambda>t. ?W t) [0..<?T]"
  have w: "?w ! i = ?W i" if "i < ?T" for i using that by simp
  have T1: "1 \<le> ?T" using assms(2) by (cases "reference m") simp_all
  have none: "settling_scan ?w ?T = ?T" if "\<forall>i. 1 \<le> i \<and> i < ?T \<longrightarrow> ?W i"
    using that T1 w by (intro settling_scan_none) auto
  have some: "settling_scan ?w ?T = i + 1"
    if "1 \<le> i \<and> i < ?T \<and> \<not> ?W i \<and> (\<forall>j. i < j \<and> j < ?T \<longrightarrow> ?W j)" for i
    using that w by (intro settling_scan_last) auto
  show ?thesis
    using none some by (simp add: metrics_same_length [OF assms])
qed

theorem settling_time_backward_scan_witness:
  "length (position \<lparr>position = [(0, 0), (1, 5), (2, 1)]\<rparr>) = length (reference (example_mission [1, 1, 1]))
   \<and> reference (example_mission [1, 1, 1]) \<noteq> []
   \<and> (\<exists>r. calculate_performance_metrics default_loop \<lparr>position = [(0, 0), (1, 5), (2, 1)]\<rparr>
              (example_mission [1, 1, 1]) = Inr r
          \<and> settling_time r = 2 \<and> settling_time_seconds r = 2)
   \<and> (\<exists>r. calculate_performance_metrics default_loop \<lparr>position = [(0, 0), (1, 1), (2, 1)]\<rparr>
              (example_mission [1, 1, 1]) = Inr r
          \<and> settling_time r = 3 \<and> settling_time_seconds r = 3)"
proof -
  let ?m = "example_mission [1, 1, 1]"
  let ?tr = "\<lparr>position = [(0, 0), (1, 5), (2, 1)]\<rparr> :: Trajectory"
  let ?W = "within_tolerance_at (map snd (position ?tr)) (reference ?m)"
  let ?tr' = "\<lparr>position = [(0, 0), (1, 1), (2, 1)]\<rparr> :: Trajectory"
  let ?W' = "within_tolerance_at (map snd (position ?tr')) (reference ?m)"
  have T: "length (reference ?m) = 3" and ne: "reference ?m \<noteq> []"
    by (simp_all add: example_mission_def)
  have len: "length (position ?tr) = length (reference ?m)"
    and len': "length (position ?tr') = length (reference ?m)"
    by (simp_all add: example_mission_def)
  have dt1: "dt (plant default_loop) = 1"
    by (simp add: default_loop_def Submarine_init_def)
  have two: "j = 2" if "1 < j \<and> j < length (reference ?m)" for j :: nat
    using that T by simp
  have one_or_two: "i = 1 \<or> i = 2" if "1 \<le> i \<and> i < length (reference ?m)" for i :: nat
    using that T by auto
  have found: "1 \<le> (1::nat) \<and> 1 < length (reference ?m) \<and> \<not> ?W 1
      \<and> (\<forall>j. 1 < j \<and> j < length (reference ?m) \<longrightarrow> ?W j)"
    using two by (auto simp add: within_tolerance_at_def example_mission_def)
  have never: "\<forall>i. 1 \<le> i \<and> i < length (reference ?m) \<longrightarrow> ?W' i"
  proof (intro allI impI)
    fix i :: nat
    assume "1 \<le> i \<and> i < length (reference ?m)"
    then have "i = 1 \<or> i = 2" by (rule one_or_two)
    then show "?W' i"
    proof
      assume "i = 1"
      then show ?thesis by (simp add: within_tolerance_at_def example_mission_def)
    next
      assume "i = 2"
      then show ?thesis by (simp add: within_tolerance_at_def example_mission_def)
    qed
  qed
  from settling_time_backward_scan [OF len ne, of default_loop] found
  obtain r where "calculate_performance_metrics default_loop ?tr ?m = Inr r"
    and "settling_time r = 1 + 1"
    and "settling_time_seconds r = real (settling_time r) * dt (plant default_loop)"
    by blast
  then have first: "\<exists>r. calculate_performance_metrics default_loop ?tr ?m = Inr r
      \<and> settling_time r = 2 \<and> settling_time_seconds r = 2"
    using dt1 by simp
  from settling_time_backward_scan [OF len' ne, of default_loop] never
  obtain r' where "calculate_performance_metrics default_loop ?tr' ?m = Inr r'"
    and "settling_time r' = length (reference ?m)"
    and "settling_time_seconds r' = real (settling_time r') * dt (plant default_loop)"
    by blast
  then have second: "\<exists>r. calculate_performance_metrics default_loop ?tr' ?m = Inr r
      \<and> settling_time r = 3 \<and> settling_time_seconds r = 3"
    using dt1 T by simp
  from len ne first second show ?thesis by blast
qed

text \<open>
  The rule as the specification words it (scan from \<open>T - 2\<close>, index plus 1, then
  \<open>(settling_index + 1) * dt\<close>) differs from the code: on the y-track \<open>0, 5, 1, 5\<close>
  against the reference \<open>1, 1, 1, 1\<close> the code finds index 3 and reports 4 seconds, the
  specification's rule finds index 1 and gives 3 seconds.
\<close>

theorem settling_time_spec_rule_counterexample:
  "\<exists>r. calculate_performance_metrics default_loop \<lparr>position = [(0, 0), (1, 5), (2, 1), (3, 5)]\<rparr>
          (example_mission [1, 1, 1, 1]) = Inr r
     \<and> settling_time_seconds r = 4
     \<and> spec_settling_time_seconds (dt (plant default_loop)) [0, 5, 1, 5] [1, 1, 1, 1] = 3
     \<and> settling_time_seconds r
         \<noteq> spec_settling_time_seconds (dt (plant default_loop)) [0, 5, 1, 5] [1, 1, 1, 1]"
  by (simp add: metrics_eval spec_settling_time_seconds_def spec_settling_index_def upt_rec)

end
